theory Spec2Isabelle
  imports Main "HOL-Library.Word"
begin

section \<open>The zlib shim of lcl-websocket: CLCLWebSocketZlib.h\<close>

text \<open>
  The header defines three \<^verbatim>\<open>static inline\<close> C functions. Two of them call an
  initialisation entry point of zlib and return what it returns; the third casts a
  \<^verbatim>\<open>void *\<close> to a \<^verbatim>\<open>Bytef *\<close>. zlib itself is not part of the repository: its entry
  points \<^verbatim>\<open>deflateInit2\<close> and \<^verbatim>\<open>inflateInit2\<close>, as \<^verbatim>\<open>zlib.h\<close> provides them to any
  C caller, are parameters of the model, and every theorem holds for whatever they do.
\<close>

subsection \<open>C values\<close>

text \<open>
  A C \<^verbatim>\<open>int\<close> is a 32-bit word (read as two's complement by \<open>sint\<close>). A pointer is an
  address tagged with the type it points to; the tag exists in the type only. The null
  pointer is address 0. Nothing in the model says which addresses are mapped: a
  dangling pointer is a pointer like any other until it is dereferenced.
\<close>

type_synonym c_int = "32 word"

type_synonym addr = nat

datatype (dead 'a) pointer = Pointer (address: addr)

text \<open>The pointee types the header mentions. \<^verbatim>\<open>z_stream\<close> is zlib's stream
  structure, whose fields the header never touches; \<^verbatim>\<open>Bytef\<close> is zlib's byte type.\<close>

typedecl z_stream

type_synonym z_streamp = "z_stream pointer"

type_synonym void = unit

type_synonym Bytef = "8 word"

text \<open>A C pointer cast \<^verbatim>\<open>(T *)p\<close> between object pointer types: the address is kept,
  the pointee type changes.\<close>

definition ptr_cast :: "'a pointer \<Rightarrow> 'b pointer" where
  "ptr_cast p = Pointer (address p)"

subsection \<open>C function calls\<close>

text \<open>
  A call runs from a state \<open>'s\<close> (the memory, the stream structure behind the handle and
  everything the library keeps) and has a set of possible outcomes: it returns a value
  and leaves a state, or it traps (a crash, undefined behaviour). The empty set is a call
  that never returns. An external entry point may have several outcomes from one state
  (an allocation that may fail, say): the model does not assume it is a function of its
  arguments.
\<close>

datatype ('a, 's) outcome = Returns 'a 's | Traps

type_synonym ('s, 'a) c_fun = "'s \<Rightarrow> ('a, 's) outcome set"

text \<open>\<^verbatim>\<open>return v;\<close> for a value already computed.\<close>

definition c_return :: "'a \<Rightarrow> ('s, 'a) c_fun" where
  "c_return v s = {Returns v s}"

text \<open>Evaluate the call \<open>m\<close>, then continue with its value in the state it left; a trap
  of \<open>m\<close> ends the whole computation.\<close>

definition c_call :: "('s, 'a) c_fun \<Rightarrow> ('a \<Rightarrow> ('s, 'b) c_fun) \<Rightarrow> ('s, 'b) c_fun" where
  "c_call m k s = (\<Union>out \<in> m s. case out of Returns v s' \<Rightarrow> k v s' | Traps \<Rightarrow> {Traps})"

subsection \<open>The three functions of the header\<close>

text \<open>
  \<^verbatim>\<open>
  static inline int CLCLWebSocketZlib_deflateInit2(z_streamp strm, int level, int method,
                                                   int windowBits, int memLevel,
                                                   int strategy) {
         return deflateInit2(strm, level, method, windowBits, memLevel, strategy);
  }
  \<close>
  The first argument of the model is zlib's \<^verbatim>\<open>deflateInit2\<close>.
\<close>

definition CLCLWebSocketZlib_deflateInit2 ::
  "(z_streamp \<Rightarrow> c_int \<Rightarrow> c_int \<Rightarrow> c_int \<Rightarrow> c_int \<Rightarrow> c_int \<Rightarrow> ('s, c_int) c_fun) \<Rightarrow>
   z_streamp \<Rightarrow> c_int \<Rightarrow> c_int \<Rightarrow> c_int \<Rightarrow> c_int \<Rightarrow> c_int \<Rightarrow> ('s, c_int) c_fun" where
  "CLCLWebSocketZlib_deflateInit2 deflateInit2 strm level method windowBits memLevel strategy =
     c_call (deflateInit2 strm level method windowBits memLevel strategy) c_return"

text \<open>
  \<^verbatim>\<open>
  static inline int CLCLWebSocketZlib_inflateInit2(z_streamp strm, int windowBits) {
      return inflateInit2(strm, windowBits);
  }
  \<close>
  The first argument of the model is zlib's \<^verbatim>\<open>inflateInit2\<close>.
\<close>

definition CLCLWebSocketZlib_inflateInit2 ::
  "(z_streamp \<Rightarrow> c_int \<Rightarrow> ('s, c_int) c_fun) \<Rightarrow> z_streamp \<Rightarrow> c_int \<Rightarrow> ('s, c_int) c_fun" where
  "CLCLWebSocketZlib_inflateInit2 inflateInit2 strm windowBits =
     c_call (inflateInit2 strm windowBits) c_return"

text \<open>
  \<^verbatim>\<open>
  static inline Bytef *CLCLWebSocketZlib_voidPtr_to_BytefPtr(void *in) {
      return (Bytef *)in;
  }
  \<close>
\<close>

definition CLCLWebSocketZlib_voidPtr_to_BytefPtr :: "void pointer \<Rightarrow> ('s, Bytef pointer) c_fun" where
  "CLCLWebSocketZlib_voidPtr_to_BytefPtr in_ptr = c_return (ptr_cast in_ptr)"

subsection \<open>Properties of a call\<close>

text \<open>The call returns: it has an outcome and no outcome is a trap.\<close>

definition returns_normally :: "('s, 'a) c_fun \<Rightarrow> 's \<Rightarrow> bool" where
  "returns_normally m s \<longleftrightarrow> m s \<noteq> {} \<and> Traps \<notin> m s"

text \<open>Every state the call can leave is the state it started from.\<close>

definition state_unchanged :: "('s, 'a) c_fun \<Rightarrow> 's \<Rightarrow> bool" where
  "state_unchanged m s \<longleftrightarrow>
     (\<forall>out \<in> m s. case out of Returns v s' \<Rightarrow> s' = s | Traps \<Rightarrow> True)"

text \<open>What of a call's outcomes can be seen through \<open>view\<close>: each returned value with
  the view of the state left, and whether it can trap.\<close>

definition visible :: "('s \<Rightarrow> 'v) \<Rightarrow> ('s, 'a) c_fun \<Rightarrow> 's \<Rightarrow> ('a, 'v) outcome set" where
  "visible view m s =
     (\<lambda>out. case out of Returns v s' \<Rightarrow> Returns v (view s') | Traps \<Rightarrow> Traps) ` m s"

section \<open>Theorems\<close>

subsection \<open>Helper lemmas\<close>

lemma c_call_c_return: "c_call m c_return = m"
proof
  fix s
  show "c_call m c_return s = m s"
    by (auto simp: c_call_def c_return_def split: outcome.splits)
qed

lemma ptr_cast_address: "address (ptr_cast p) = address p"
  by (simp add: ptr_cast_def)

lemma ptr_cast_back: "ptr_cast (ptr_cast p :: 'b pointer) = (p :: 'a pointer)"
  by (cases p) (simp add: ptr_cast_def)

subsection \<open>The deflate wrapper against the direct call\<close>

text \<open>
  C1. From every state and for every argument tuple, valid or not, the outcomes of
  \<open>CLCLWebSocketZlib_deflateInit2\<close> are the outcomes of zlib's \<open>deflateInit2\<close> called
  directly with the same arguments from the same state: the same returned values, each
  with the same state left behind (the stream structure behind \<open>strm\<close> is part of the
  state), and a trap exactly when the direct call traps.
\<close>

theorem deflateInit2_wrapper_equals_direct_call:
  "CLCLWebSocketZlib_deflateInit2 deflateInit2 strm level method windowBits memLevel strategy s
     = deflateInit2 strm level method windowBits memLevel strategy s"
  by (simp add: CLCLWebSocketZlib_deflateInit2_def c_call_c_return)

text \<open>At a concrete library: an entry point that rejects the null handle with \<open>-2\<close>
  and otherwise stores the level at the handle's address and returns \<open>0\<close>.\<close>

theorem deflateInit2_wrapper_equals_direct_call_witness:
  "CLCLWebSocketZlib_deflateInit2
     (\<lambda>strm level method windowBits memLevel strategy (s :: addr \<rightharpoonup> c_int).
        if address strm = 0 then {Returns (- 2) s}
        else {Returns 0 (s(address strm \<mapsto> level))})
     (Pointer 16) 6 8 15 8 0 Map.empty
   = {Returns 0 [16 \<mapsto> 6]}"
  by (simp add: deflateInit2_wrapper_equals_direct_call)

subsection \<open>The inflate wrapper against the direct call\<close>

text \<open>
  C2. From every state and for every pair \<open>(strm, windowBits)\<close>, valid or not, the
  outcomes of \<open>CLCLWebSocketZlib_inflateInit2\<close> are the outcomes of zlib's
  \<open>inflateInit2\<close> called directly with the same arguments from the same state: the
  same returned values, each with the same state left behind, and a trap exactly when
  the direct call traps.
\<close>

theorem inflateInit2_wrapper_equals_direct_call:
  "CLCLWebSocketZlib_inflateInit2 inflateInit2 strm windowBits s = inflateInit2 strm windowBits s"
  by (simp add: CLCLWebSocketZlib_inflateInit2_def c_call_c_return)

text \<open>At a concrete library: the null handle is rejected with \<open>-2\<close>, any other handle
  gets the window bits stored at its address.\<close>

theorem inflateInit2_wrapper_equals_direct_call_witness:
  "CLCLWebSocketZlib_inflateInit2
     (\<lambda>strm windowBits (s :: addr \<rightharpoonup> c_int).
        if address strm = 0 then {Returns (- 2) s}
        else {Returns 0 (s(address strm \<mapsto> windowBits))})
     (Pointer 32) (- 15) Map.empty
   = {Returns 0 [32 \<mapsto> - 15]}"
  by (simp add: inflateInit2_wrapper_equals_direct_call)

subsection \<open>Status codes\<close>

text \<open>
  C3. A call of either wrapper can return the status \<open>rc\<close> and leave the state \<open>s'\<close>
  exactly when the forwarded zlib call returns \<open>rc\<close> and leaves \<open>s'\<close>. So the wrapper's
  return value is the library's status code, whatever it is: an error status is not
  replaced by another one, and the state zlib left on an error is the state the wrapper
  leaves (nothing is undone or retried).
\<close>

theorem status_code_forwarded_verbatim:
  "(Returns rc s' \<in> CLCLWebSocketZlib_deflateInit2 deflateInit2 strm level method windowBits
                       memLevel strategy s)
     = (Returns rc s' \<in> deflateInit2 strm level method windowBits memLevel strategy s)
   \<and> (Returns rc2 s2' \<in> CLCLWebSocketZlib_inflateInit2 inflateInit2 strm2 windowBits2 s2)
     = (Returns rc2 s2' \<in> inflateInit2 strm2 windowBits2 s2)"
  by (simp add: CLCLWebSocketZlib_deflateInit2_def CLCLWebSocketZlib_inflateInit2_def
      c_call_c_return)

text \<open>At a deflate entry point that answers \<open>-2\<close> to a level above 9 and may answer
  \<open>0\<close> or \<open>-4\<close> otherwise, and an inflate entry point that answers \<open>-2\<close> to the null
  handle: the wrappers return the error statuses as they are.\<close>

theorem status_code_forwarded_verbatim_witness:
  "Returns (- 2) (0 :: nat) \<in>
     CLCLWebSocketZlib_deflateInit2
       (\<lambda>strm level method windowBits memLevel strategy s.
          if 9 <s level then {Returns (- 2) s} else {Returns 0 (Suc s), Returns (- 4) s})
       (Pointer 16) 10 8 15 8 0 0
   \<and> Returns (- 4) (0 :: nat) \<in>
     CLCLWebSocketZlib_deflateInit2
       (\<lambda>strm level method windowBits memLevel strategy s.
          if 9 <s level then {Returns (- 2) s} else {Returns 0 (Suc s), Returns (- 4) s})
       (Pointer 16) 6 8 15 8 0 0
   \<and> Returns (- 2) (0 :: nat) \<in>
     CLCLWebSocketZlib_inflateInit2
       (\<lambda>strm windowBits s. if address strm = 0 then {Returns (- 2) s} else {Returns 0 (Suc s)})
       (Pointer 0) 15 0"
  by (simp add: status_code_forwarded_verbatim)

subsection \<open>Arguments\<close>

text \<open>
  C4. The deflate wrapper has six parameters after the entry point: the stream handle,
  the level, the method, the window bits, the memory level and the strategy. Applied to
  them it is zlib's \<open>deflateInit2\<close> applied to the same six values in the same order,
  for every \<open>deflateInit2\<close>: an entry point that could tell a swapped or altered
  argument apart would make the equation fail.
\<close>

theorem deflateInit2_arguments_forwarded_in_order:
  "CLCLWebSocketZlib_deflateInit2 deflateInit2 strm level method windowBits memLevel strategy
     = deflateInit2 strm level method windowBits memLevel strategy"
  by (simp add: CLCLWebSocketZlib_deflateInit2_def c_call_c_return)

text \<open>At an entry point that appends the arguments it receives to a log.\<close>

theorem deflateInit2_arguments_forwarded_in_order_witness:
  "CLCLWebSocketZlib_deflateInit2
     (\<lambda>a1 a2 a3 a4 a5 a6 log. {Returns 0 (log @ [(a1, a2, a3, a4, a5, a6)])})
     (Pointer 16) 1 2 3 4 5 []
   = {Returns 0 [(Pointer 16, 1, 2, 3, 4, 5)]}"
  by (simp add: deflateInit2_arguments_forwarded_in_order)

text \<open>
  C5. The inflate wrapper has two parameters after the entry point: the stream handle
  and the window bits. Applied to them it is zlib's \<open>inflateInit2\<close> applied to the
  same two values in the same order, for every \<open>inflateInit2\<close>.
\<close>

theorem inflateInit2_arguments_forwarded_in_order:
  "CLCLWebSocketZlib_inflateInit2 inflateInit2 strm windowBits = inflateInit2 strm windowBits"
  by (simp add: CLCLWebSocketZlib_inflateInit2_def c_call_c_return)

text \<open>At an entry point that appends the arguments it receives to a log.\<close>

theorem inflateInit2_arguments_forwarded_in_order_witness:
  "CLCLWebSocketZlib_inflateInit2
     (\<lambda>a1 a2 log. {Returns 0 (log @ [(a1, a2)])})
     (Pointer 32) (- 15) []
   = {Returns 0 [(Pointer 32, - 15)]}"
  by (simp add: inflateInit2_arguments_forwarded_in_order)

subsection \<open>Nothing added around the forwarded call\<close>

text \<open>
  C6. As a function of the entry point it is given, each initialisation wrapper is the
  identity: whatever \<open>deflateInit2\<close> (or \<open>inflateInit2\<close>) does with its arguments and
  the state, the wrapper does exactly that. So the entry point is called once, from
  the state the wrapper was entered in, with the arguments as they came (no check
  rejects or changes any of them), and its value and the state it leaves are the
  wrapper's (nothing is changed afterwards). The pointer helper returns its argument's
  address retyped and leaves the state alone: the retyping is all it does.
\<close>

theorem wrappers_add_no_behaviour:
  "CLCLWebSocketZlib_deflateInit2 deflateInit2 = deflateInit2
   \<and> CLCLWebSocketZlib_inflateInit2 inflateInit2 = inflateInit2
   \<and> CLCLWebSocketZlib_voidPtr_to_BytefPtr p s = {Returns (Pointer (address p)) s}"
proof (intro conjI)
  show "CLCLWebSocketZlib_deflateInit2 deflateInit2 = deflateInit2"
    by (intro ext) (simp add: CLCLWebSocketZlib_deflateInit2_def c_call_c_return)
  show "CLCLWebSocketZlib_inflateInit2 inflateInit2 = inflateInit2"
    by (intro ext) (simp add: CLCLWebSocketZlib_inflateInit2_def c_call_c_return)
  show "CLCLWebSocketZlib_voidPtr_to_BytefPtr p s = {Returns (Pointer (address p)) s}"
    by (simp add: CLCLWebSocketZlib_voidPtr_to_BytefPtr_def c_return_def ptr_cast_def)
qed

text \<open>At entry points that count their calls in the state and return the sum of their
  integer arguments: after each wrapper the count is one, and the value is the sum of
  the arguments as given. The helper, in a state where no address is mapped.\<close>

theorem wrappers_add_no_behaviour_witness:
  "CLCLWebSocketZlib_deflateInit2
     (\<lambda>strm level method windowBits memLevel strategy (calls :: nat).
        {Returns (level + method + windowBits + memLevel + strategy) (Suc calls)})
     (Pointer 16) 6 8 15 8 0 0
   = {Returns 37 1}
   \<and> CLCLWebSocketZlib_inflateInit2
     (\<lambda>strm windowBits (calls :: nat). {Returns windowBits (Suc calls)})
     (Pointer 32) 15 0
   = {Returns 15 1}
   \<and> CLCLWebSocketZlib_voidPtr_to_BytefPtr (Pointer 4096) (Map.empty :: addr \<rightharpoonup> Bytef)
   = {Returns (Pointer 4096) Map.empty}"
  by (simp add: wrappers_add_no_behaviour)

subsection \<open>The pointer helper\<close>

text \<open>
  C8. For every pointer \<open>p\<close>, the null pointer included, and from every state,
  \<open>CLCLWebSocketZlib_voidPtr_to_BytefPtr p\<close> returns one pointer \<open>q\<close>; \<open>q\<close> holds the
  address of \<open>p\<close>, and casting \<open>q\<close> back to \<^verbatim>\<open>void *\<close> gives \<open>p\<close>.
\<close>

theorem voidPtr_to_BytefPtr_same_address:
  "\<exists>q. CLCLWebSocketZlib_voidPtr_to_BytefPtr p s = {Returns q s}
       \<and> address q = address p
       \<and> (ptr_cast q :: void pointer) = p"
  by (simp add: CLCLWebSocketZlib_voidPtr_to_BytefPtr_def c_return_def
      ptr_cast_address ptr_cast_back)

text \<open>At the null pointer.\<close>

theorem voidPtr_to_BytefPtr_same_address_witness:
  "\<exists>q. CLCLWebSocketZlib_voidPtr_to_BytefPtr (Pointer 0) (Map.empty :: addr \<rightharpoonup> Bytef)
         = {Returns q Map.empty}
       \<and> address q = 0
       \<and> (ptr_cast q :: void pointer) = Pointer 0"
  using voidPtr_to_BytefPtr_same_address [of "Pointer 0" "Map.empty :: addr \<rightharpoonup> Bytef"]
  by simp

text \<open>
  C9. For every pointer and from every state, \<open>CLCLWebSocketZlib_voidPtr_to_BytefPtr\<close>
  returns (it has an outcome and does not trap) and leaves the state as it found it.
  The state is arbitrary: it holds also where the pointer is null or its address is
  not mapped, so the result does not depend on what the pointer points to.
\<close>

theorem voidPtr_to_BytefPtr_total_and_pure:
  "returns_normally (CLCLWebSocketZlib_voidPtr_to_BytefPtr p) s
   \<and> state_unchanged (CLCLWebSocketZlib_voidPtr_to_BytefPtr p) s"
  by (simp add: returns_normally_def state_unchanged_def
      CLCLWebSocketZlib_voidPtr_to_BytefPtr_def c_return_def)

text \<open>At a dangling pointer: the state is a memory with no mapped address. The first
  conjunct shows the outcome that \<open>state_unchanged\<close> speaks about.\<close>

theorem voidPtr_to_BytefPtr_total_and_pure_witness:
  "Returns (Pointer 4096) Map.empty
     \<in> CLCLWebSocketZlib_voidPtr_to_BytefPtr (Pointer 4096) (Map.empty :: addr \<rightharpoonup> Bytef)
   \<and> returns_normally (CLCLWebSocketZlib_voidPtr_to_BytefPtr (Pointer 4096))
       (Map.empty :: addr \<rightharpoonup> Bytef)
   \<and> state_unchanged (CLCLWebSocketZlib_voidPtr_to_BytefPtr (Pointer 4096))
       (Map.empty :: addr \<rightharpoonup> Bytef)"
  using voidPtr_to_BytefPtr_total_and_pure [of "Pointer 4096" "Map.empty :: addr \<rightharpoonup> Bytef"]
  by (simp add: CLCLWebSocketZlib_voidPtr_to_BytefPtr_def c_return_def ptr_cast_def)

subsection \<open>Determinism and dependence\<close>

text \<open>
  C10. Let \<open>view\<close> pick from the whole state the part that is the stream structure and
  the library (anything else, a static variable or the clock, is outside the view), and
  let \<open>s1\<close> and \<open>s2\<close> be the states of two calls with the same arguments. For each
  initialisation wrapper: every outcome of the wrapper is an outcome of the forwarded
  call, so it has no outcome of its own; whenever the forwarded call shows the same
  values, views of the state left and traps from \<open>s1\<close> as from \<open>s2\<close>, so does the
  wrapper; and where the forwarded call shows the one outcome \<open>out\<close> from both states,
  both calls of the wrapper show \<open>out\<close> and nothing else: the same returned value and
  the same resulting stream and library state. For the pointer helper: from two states
  with the same view, both calls return the argument's address retyped and leave that
  view, and nothing else.
\<close>

theorem wrappers_depend_only_on_forwarded_call:
  "CLCLWebSocketZlib_deflateInit2 deflateInit2 strm level method windowBits memLevel strategy s1
     \<subseteq> deflateInit2 strm level method windowBits memLevel strategy s1
   \<and> (visible view (deflateInit2 strm level method windowBits memLevel strategy) s1
        = visible view (deflateInit2 strm level method windowBits memLevel strategy) s2 \<longrightarrow>
      visible view (CLCLWebSocketZlib_deflateInit2 deflateInit2 strm level method windowBits
                      memLevel strategy) s1
        = visible view (CLCLWebSocketZlib_deflateInit2 deflateInit2 strm level method windowBits
                          memLevel strategy) s2)
   \<and> (visible view (deflateInit2 strm level method windowBits memLevel strategy) s1 = {out}
        \<and> visible view (deflateInit2 strm level method windowBits memLevel strategy) s2 = {out}
      \<longrightarrow>
      visible view (CLCLWebSocketZlib_deflateInit2 deflateInit2 strm level method windowBits
                      memLevel strategy) s1 = {out}
        \<and> visible view (CLCLWebSocketZlib_deflateInit2 deflateInit2 strm level method windowBits
                           memLevel strategy) s2 = {out})
   \<and> CLCLWebSocketZlib_inflateInit2 inflateInit2 strm windowBits s1
     \<subseteq> inflateInit2 strm windowBits s1
   \<and> (visible view (inflateInit2 strm windowBits) s1
        = visible view (inflateInit2 strm windowBits) s2 \<longrightarrow>
      visible view (CLCLWebSocketZlib_inflateInit2 inflateInit2 strm windowBits) s1
        = visible view (CLCLWebSocketZlib_inflateInit2 inflateInit2 strm windowBits) s2)
   \<and> (visible view (inflateInit2 strm windowBits) s1 = {out}
        \<and> visible view (inflateInit2 strm windowBits) s2 = {out} \<longrightarrow>
      visible view (CLCLWebSocketZlib_inflateInit2 inflateInit2 strm windowBits) s1 = {out}
        \<and> visible view (CLCLWebSocketZlib_inflateInit2 inflateInit2 strm windowBits) s2 = {out})
   \<and> (view s1 = view s2 \<longrightarrow>
      visible view (CLCLWebSocketZlib_voidPtr_to_BytefPtr p) s1
        = {Returns (Pointer (address p)) (view s1)}
        \<and> visible view (CLCLWebSocketZlib_voidPtr_to_BytefPtr p) s2
        = {Returns (Pointer (address p)) (view s1)})"
  by (simp add: CLCLWebSocketZlib_deflateInit2_def CLCLWebSocketZlib_inflateInit2_def
      CLCLWebSocketZlib_voidPtr_to_BytefPtr_def c_call_c_return visible_def c_return_def
      ptr_cast_def)

text \<open>At entry points that are functions of their arguments and the view. The state is
  a flag outside the view paired with a memory; the two calls start from states that
  differ in the flag only. The first two and the fifth and sixth conjuncts are the
  hypotheses, at the entry points themselves.\<close>

theorem wrappers_depend_only_on_forwarded_call_witness:
  "visible snd
     ((\<lambda>(strm :: z_streamp) level method windowBits memLevel strategy
          (s :: bool \<times> (addr \<rightharpoonup> c_int)).
         if address strm = 0 then {Returns (- 2 :: c_int) s}
         else {Returns 0 (fst s, (snd s)(address strm \<mapsto> level))})
        (Pointer 16) 6 8 15 8 0) (True, Map.empty)
     = {Returns 0 [16 \<mapsto> 6]}
   \<and> visible snd
     ((\<lambda>(strm :: z_streamp) level method windowBits memLevel strategy
          (s :: bool \<times> (addr \<rightharpoonup> c_int)).
         if address strm = 0 then {Returns (- 2 :: c_int) s}
         else {Returns 0 (fst s, (snd s)(address strm \<mapsto> level))})
        (Pointer 16) 6 8 15 8 0) (False, Map.empty)
     = {Returns 0 [16 \<mapsto> 6]}
   \<and> visible snd
     (CLCLWebSocketZlib_deflateInit2
        (\<lambda>strm level method windowBits memLevel strategy (s :: bool \<times> (addr \<rightharpoonup> c_int)).
           if address strm = 0 then {Returns (- 2) s}
           else {Returns 0 (fst s, (snd s)(address strm \<mapsto> level))})
        (Pointer 16) 6 8 15 8 0) (True, Map.empty)
     = {Returns 0 [16 \<mapsto> 6]}
   \<and> visible snd
     (CLCLWebSocketZlib_deflateInit2
        (\<lambda>strm level method windowBits memLevel strategy (s :: bool \<times> (addr \<rightharpoonup> c_int)).
           if address strm = 0 then {Returns (- 2) s}
           else {Returns 0 (fst s, (snd s)(address strm \<mapsto> level))})
        (Pointer 16) 6 8 15 8 0) (False, Map.empty)
     = {Returns 0 [16 \<mapsto> 6]}
   \<and> visible snd
     ((\<lambda>(strm :: z_streamp) windowBits (s :: bool \<times> (addr \<rightharpoonup> c_int)).
         if address strm = 0 then {Returns (- 2 :: c_int) s}
         else {Returns 0 (fst s, (snd s)(address strm \<mapsto> windowBits))})
        (Pointer 0) 15) (True, Map.empty)
     = {Returns (- 2) Map.empty}
   \<and> visible snd
     ((\<lambda>(strm :: z_streamp) windowBits (s :: bool \<times> (addr \<rightharpoonup> c_int)).
         if address strm = 0 then {Returns (- 2 :: c_int) s}
         else {Returns 0 (fst s, (snd s)(address strm \<mapsto> windowBits))})
        (Pointer 0) 15) (False, Map.empty)
     = {Returns (- 2) Map.empty}
   \<and> visible snd
     (CLCLWebSocketZlib_inflateInit2
        (\<lambda>strm windowBits (s :: bool \<times> (addr \<rightharpoonup> c_int)).
           if address strm = 0 then {Returns (- 2) s}
           else {Returns 0 (fst s, (snd s)(address strm \<mapsto> windowBits))})
        (Pointer 0) 15) (True, Map.empty)
     = {Returns (- 2) Map.empty}
   \<and> visible snd
     (CLCLWebSocketZlib_inflateInit2
        (\<lambda>strm windowBits (s :: bool \<times> (addr \<rightharpoonup> c_int)).
           if address strm = 0 then {Returns (- 2) s}
           else {Returns 0 (fst s, (snd s)(address strm \<mapsto> windowBits))})
        (Pointer 0) 15) (False, Map.empty)
     = {Returns (- 2) Map.empty}
   \<and> visible snd (CLCLWebSocketZlib_voidPtr_to_BytefPtr (Pointer 0))
       (True, Map.empty :: addr \<rightharpoonup> c_int)
     = {Returns (Pointer 0) Map.empty}
   \<and> visible snd (CLCLWebSocketZlib_voidPtr_to_BytefPtr (Pointer 0))
       (False, Map.empty :: addr \<rightharpoonup> c_int)
     = {Returns (Pointer 0) Map.empty}"
proof -
  let ?d = "\<lambda>(strm :: z_streamp) (level :: c_int) (method :: c_int) (windowBits :: c_int)
              (memLevel :: c_int) (strategy :: c_int) (s :: bool \<times> (addr \<rightharpoonup> c_int)).
              if address strm = 0 then {Returns (- 2 :: c_int) s}
              else {Returns 0 (fst s, (snd s)(address strm \<mapsto> level))}"
  let ?i = "\<lambda>(strm :: z_streamp) (windowBits :: c_int) (s :: bool \<times> (addr \<rightharpoonup> c_int)).
              if address strm = 0 then {Returns (- 2 :: c_int) s}
              else {Returns 0 (fst s, (snd s)(address strm \<mapsto> windowBits))}"
  have d1: "visible snd (?d (Pointer 16) 6 8 15 8 0) (True, Map.empty) = {Returns 0 [16 \<mapsto> 6]}"
    by (simp add: visible_def)
  have d2: "visible snd (?d (Pointer 16) 6 8 15 8 0) (False, Map.empty) = {Returns 0 [16 \<mapsto> 6]}"
    by (simp add: visible_def)
  have i1: "visible snd (?i (Pointer 0) 15) (True, Map.empty) = {Returns (- 2) Map.empty}"
    by (simp add: visible_def)
  have i2: "visible snd (?i (Pointer 0) 15) (False, Map.empty) = {Returns (- 2) Map.empty}"
    by (simp add: visible_def)
  note td = wrappers_depend_only_on_forwarded_call [of ?d "Pointer 16" 6 8 15 8 0
      "(True, Map.empty)" snd "(False, Map.empty)" "Returns 0 [16 \<mapsto> 6]"]
  note ti = wrappers_depend_only_on_forwarded_call [where ?inflateInit2.0 = ?i
      and strm = "Pointer 0" and windowBits = 15 and view = snd
      and ?s1.0 = "(True, Map.empty)" and ?s2.0 = "(False, Map.empty)"
      and out = "Returns (- 2) Map.empty"]
  note th = wrappers_depend_only_on_forwarded_call [where p = "Pointer 0" and view = snd
      and ?s1.0 = "(True, Map.empty :: addr \<rightharpoonup> c_int)"
      and ?s2.0 = "(False, Map.empty :: addr \<rightharpoonup> c_int)"]
  have dw: "visible snd (CLCLWebSocketZlib_deflateInit2 ?d (Pointer 16) 6 8 15 8 0)
              (True, Map.empty) = {Returns 0 [16 \<mapsto> 6]}
            \<and> visible snd (CLCLWebSocketZlib_deflateInit2 ?d (Pointer 16) 6 8 15 8 0)
              (False, Map.empty) = {Returns 0 [16 \<mapsto> 6]}"
    using d1 d2 td by simp
  have iw: "visible snd (CLCLWebSocketZlib_inflateInit2 ?i (Pointer 0) 15)
              (True, Map.empty) = {Returns (- 2) Map.empty}
            \<and> visible snd (CLCLWebSocketZlib_inflateInit2 ?i (Pointer 0) 15)
              (False, Map.empty) = {Returns (- 2) Map.empty}"
    using i1 i2 ti by simp
  have hw: "visible snd (CLCLWebSocketZlib_voidPtr_to_BytefPtr (Pointer 0))
              (True, Map.empty :: addr \<rightharpoonup> c_int) = {Returns (Pointer 0) Map.empty}
            \<and> visible snd (CLCLWebSocketZlib_voidPtr_to_BytefPtr (Pointer 0))
              (False, Map.empty :: addr \<rightharpoonup> c_int) = {Returns (Pointer 0) Map.empty}"
    using th by simp
  from d1 d2 i1 i2 dw iw hw show ?thesis by simp
qed

end
